theory Spec2Isabelle
  imports Main "HOL-Library.Log_Nat" "HOL-Library.Signed_Division"
begin

section \<open>Go numerics used by combat.go\<close>

text \<open>
  Go's \<^verbatim>\<open>int\<close> is modelled as \<^typ>\<open>int\<close>: the stats, levels, dice and damage totals of
  the game stay far below \<open>2^63\<close>, so wrap-around is not written out.

  combat.go computes four quantities through \<^verbatim>\<open>float64\<close>: the attack count, the hit chance,
  the crit chance and the defense reduction. A finite \<^verbatim>\<open>float64\<close> is a rational number, and
  every IEEE-754 operation returns the exact result rounded to the nearest number with a
  53-bit significand, ties to the even significand. \<open>fl64\<close> is that rounding on \<^typ>\<open>rat\<close>.
  The exponent range (overflow to infinity, subnormal numbers) is not modelled: the values
  here are quotients and products of integers of moderate size.
\<close>

definition rne :: "rat \<Rightarrow> int" where
  "rne x = (let f = \<lfloor>x\<rfloor>; r = x - of_int f
            in if r < 1 / 2 then f else if 1 / 2 < r then f + 1
               else if even f then f else f + 1)"

definition expo :: "rat \<Rightarrow> int" where
  "expo x = (let a = \<bar>x\<bar>
             in if 1 \<le> a then bitlen \<lfloor>a\<rfloor> - 1 else - bitlen (\<lceil>1 / a\<rceil> - 1))"

definition fl64 :: "rat \<Rightarrow> rat" where
  "fl64 x = (if x = 0 then 0
             else let u = 2 powi (expo x - 52) in of_int (rne (x / u)) * u)"

definition float64 :: "int \<Rightarrow> rat" where
  "float64 n = fl64 (of_int n)"

definition fdiv :: "rat \<Rightarrow> rat \<Rightarrow> rat" where
  "fdiv x y = fl64 (x / y)"

definition fmul :: "rat \<Rightarrow> rat \<Rightarrow> rat" where
  "fmul x y = fl64 (x * y)"

text \<open>\<^verbatim>\<open>int(f)\<close> truncates toward zero; \<^verbatim>\<open>math.Ceil\<close> rounds up; \<^verbatim>\<open>math.Round\<close> rounds to
  the nearest integer, halves away from zero. The last two return an integral float, which
  \<^verbatim>\<open>int(...)\<close> converts exactly, so the models return \<^typ>\<open>int\<close>.\<close>

definition go_int :: "rat \<Rightarrow> int" where
  "go_int x = (if 0 \<le> x then \<lfloor>x\<rfloor> else \<lceil>x\<rceil>)"

definition go_Ceil :: "rat \<Rightarrow> int" where
  "go_Ceil x = \<lceil>x\<rceil>"

definition go_Round :: "rat \<Rightarrow> int" where
  "go_Round x = (if 0 \<le> x then \<lfloor>x + 1 / 2\<rfloor> else \<lceil>x - 1 / 2\<rceil>)"

text \<open>\<^verbatim>\<open>strconv.Itoa\<close> and the \<^verbatim>\<open>%d\<close> verb: decimal digits, with a sign for negatives.\<close>

fun digits :: "nat \<Rightarrow> string" where
  "digits n = (if n < 10 then [char_of (48 + n)]
               else digits (n div 10) @ [char_of (48 + n mod 10)])"

definition Itoa :: "int \<Rightarrow> string" where
  "Itoa i = (if i < 0 then CHR ''-'' # digits (nat (- i)) else digits (nat i))"

section \<open>Data model\<close>

datatype SourceTarget = User | Mob

text \<open>Of the targeting modes of the characters package, combat.go names two.\<close>

datatype AggroType = DefaultAttack | BackStab | OtherAggro nat

datatype BuffFlag = Hidden | Accuracy | Blink | OtherFlag nat

datatype ItemType = Weapon | OtherType nat

datatype ItemSubType = Generic | Claws | OtherSubType nat

text \<open>An item together with what \<^verbatim>\<open>GetSpec()\<close>, \<^verbatim>\<open>DisplayName()\<close> and \<^verbatim>\<open>GetDiceRoll()\<close> look up
  for it in the item registry. The dice roll is
  \<open>(attacks, dCount, dSides, dBonus, critBuffs)\<close>.\<close>

type_synonym DiceRoll = "int \<times> int \<times> int \<times> int \<times> int list"

record Item =
  ItemId :: int
  SpecType :: ItemType
  SpecSubtype :: ItemSubType
  DisplayName :: string
  GetDiceRoll :: DiceRoll

record AggroInfo =
  AggroUserId :: int
  AggroMobInstanceId :: int
  AggroT :: AggroType

text \<open>The fields of \<^verbatim>\<open>characters.Character\<close> that combat.go reads, with the results of its
  accessor calls stored as fields: \<open>Strength\<close> and \<open>Speed\<close> are the \<^verbatim>\<open>ValueAdj\<close> of the stat,
  \<open>DualWield\<close> is \<^verbatim>\<open>GetSkillLevel(skills.DualWield)\<close>, \<open>GetDefense\<close> is \<^verbatim>\<open>GetDefense()\<close>,
  \<open>BuffFlags\<close> lists the flags for which \<^verbatim>\<open>HasBuffFlag\<close> is true, \<open>UnarmedName\<close> is
  \<^verbatim>\<open>races.GetRace(RaceId).UnarmedName\<close> and \<open>MobName\<close> is \<^verbatim>\<open>GetMobName(0).String()\<close>.\<close>

record Character =
  Name :: string
  Level :: int
  RoomId :: int
  Strength :: int
  Speed :: int
  EquipWeapon :: Item
  EquipOffhand :: Item
  Aggro :: AggroInfo
  BuffFlags :: "BuffFlag list"
  DualWield :: int
  GetDefense :: int
  GetDefaultDiceRoll :: DiceRoll
  UnarmedName :: string
  MobName :: string
  Health :: int

definition HasBuffFlag :: "Character \<Rightarrow> BuffFlag \<Rightarrow> bool" where
  "HasBuffFlag c f = (f \<in> set (BuffFlags c))"

text \<open>Modelled from the spec: \<^verbatim>\<open>Character.SetAggro\<close> (characters package, not in this file)
  sets the targeting mode of the character it is called on.\<close>

definition SetAggro :: "Character \<Rightarrow> int \<Rightarrow> int \<Rightarrow> AggroType \<Rightarrow> Character" where
  "SetAggro c userId mobInstanceId aggroType =
     c\<lparr>Aggro := \<lparr>AggroUserId = userId, AggroMobInstanceId = mobInstanceId, AggroT = aggroType\<rparr>\<rparr>"


text \<open>Modelled from the spec: the Attack Result (declared beside combat.go, not in this file)
  holds the cumulative damage and reduction on each side, the hit and crit flags, the buffs
  for the target, and four channels of rendered strings to which the \<^verbatim>\<open>SendTo...\<close> methods
  append.\<close>

record AttackResult =
  Hit :: bool
  Crit :: bool
  BuffTarget :: "int list"
  DamageToTarget :: int
  DamageToTargetReduction :: int
  DamageToSource :: int
  DamageToSourceReduction :: int
  MessagesToSource :: "string list"
  MessagesToTarget :: "string list"
  MessagesToSourceRoom :: "string list"
  MessagesToTargetRoom :: "string list"

definition emptyResult :: AttackResult where
  "emptyResult =
     \<lparr>Hit = False, Crit = False, BuffTarget = [], DamageToTarget = 0,
      DamageToTargetReduction = 0, DamageToSource = 0, DamageToSourceReduction = 0,
      MessagesToSource = [], MessagesToTarget = [], MessagesToSourceRoom = [],
      MessagesToTargetRoom = []\<rparr>"

definition SendToSource :: "string \<Rightarrow> AttackResult \<Rightarrow> AttackResult" where
  "SendToSource msg ar = ar\<lparr>MessagesToSource := MessagesToSource ar @ [msg]\<rparr>"

definition SendToTarget :: "string \<Rightarrow> AttackResult \<Rightarrow> AttackResult" where
  "SendToTarget msg ar = ar\<lparr>MessagesToTarget := MessagesToTarget ar @ [msg]\<rparr>"

definition SendToSourceRoom :: "string \<Rightarrow> AttackResult \<Rightarrow> AttackResult" where
  "SendToSourceRoom msg ar = ar\<lparr>MessagesToSourceRoom := MessagesToSourceRoom ar @ [msg]\<rparr>"

definition SendToTargetRoom :: "string \<Rightarrow> AttackResult \<Rightarrow> AttackResult" where
  "SendToTargetRoom msg ar = ar\<lparr>MessagesToTargetRoom := MessagesToTargetRoom ar @ [msg]\<rparr>"

section \<open>The random source and its audit log\<close>

text \<open>
  The process-wide random source is made explicit: \<open>draws\<close> holds the raw values of the
  draws still to come (all zero once the list is used up), \<open>rolls\<close> the entries written by
  \<^verbatim>\<open>util.LogRoll\<close>, oldest first. The draws that collaborators make for themselves (the
  choice among message variants) are not on this tape.
\<close>

record World =
  draws :: "int list"
  rolls :: "(string \<times> int \<times> int) list"

text \<open>Modelled from the spec: \<^verbatim>\<open>util.Rand(n)\<close> (util package) returns an integer in \<open>[0, n)\<close>;
  for \<open>n < 1\<close> there is no such integer and the model returns 0 without drawing.\<close>

definition Rand :: "int \<Rightarrow> World \<Rightarrow> int \<times> World" where
  "Rand n w =
     (if n < 1 then (0, w)
      else case draws w of
             [] \<Rightarrow> (0, w)
           | x # xs \<Rightarrow> (x mod n, w\<lparr>draws := xs\<rparr>))"

text \<open>Modelled from the spec: \<^verbatim>\<open>util.RollDice(count, sides)\<close> is the sum of \<open>count\<close> draws in
  \<open>[1, sides]\<close>.\<close>

fun RollDiceN :: "nat \<Rightarrow> int \<Rightarrow> World \<Rightarrow> int \<times> World" where
  "RollDiceN 0 sides w = (0, w)"
| "RollDiceN (Suc n) sides w =
     (let (r, w1) = Rand sides w;
          (t, w2) = RollDiceN n sides w1
      in (r + 1 + t, w2))"

definition RollDice :: "int \<Rightarrow> int \<Rightarrow> World \<Rightarrow> int \<times> World" where
  "RollDice dice sides w = RollDiceN (nat dice) sides w"

text \<open>Modelled from the spec: \<^verbatim>\<open>util.LogRoll\<close> records the label, the roll and the threshold
  of a probabilistic decision.\<close>

definition LogRoll :: "string \<Rightarrow> int \<Rightarrow> int \<Rightarrow> World \<Rightarrow> World" where
  "LogRoll label roll threshold w = w\<lparr>rolls := rolls w @ [(label, roll, threshold)]\<rparr>"

section \<open>Hit and crit determination\<close>

definition hitChance :: "int \<Rightarrow> int \<Rightarrow> int" where
  "hitChance attackSpd defendSpd =
     (let atkPlusDef = float64 (attackSpd + defendSpd);
          atkPlusDef = (if atkPlusDef < 1 then 1 else atkPlusDef)
      in 30 + go_int (fmul (fdiv (float64 attackSpd) atkPlusDef) 70))"

text \<open>The threshold that \<^verbatim>\<open>Hits\<close> compares the roll with: lines 485 to 498.\<close>

definition toHitPct :: "int \<Rightarrow> int \<Rightarrow> int \<Rightarrow> int" where
  "toHitPct attackSpd defendSpd hitModifier =
     (let toHit = hitChance attackSpd defendSpd;
          toHit = (if hitModifier \<noteq> 0 then toHit + hitModifier else toHit);
          toHit = (if toHit < 5 then 5 else toHit);
          toHit = (if toHit > 95 then 95 else toHit)
      in toHit)"

definition Hits :: "int \<Rightarrow> int \<Rightarrow> int \<Rightarrow> World \<Rightarrow> bool \<times> World" where
  "Hits attackSpd defendSpd hitModifier w =
     (let toHit = toHitPct attackSpd defendSpd hitModifier;
          (hitRoll, w) = Rand 100 w;
          w = LogRoll ''Hits'' hitRoll toHit w
      in (hitRoll < toHit, w))"

text \<open>The threshold that \<^verbatim>\<open>Crits\<close> compares the roll with: lines 509 to 526. Go's integer
  division truncates toward zero, which is \<open>sdiv\<close>.\<close>

definition critChance :: "Character \<Rightarrow> Character \<Rightarrow> int" where
  "critChance sourceChar targetChar =
     (let levelDiff = Level sourceChar - Level targetChar;
          levelDiff = (if levelDiff < 1 then 1 else levelDiff);
          critChance = 5 + go_Round (fdiv (float64 (Strength sourceChar + Speed sourceChar))
                                          (float64 levelDiff));
          critChance = (if HasBuffFlag sourceChar Accuracy then critChance * 2 else critChance);
          critChance = (if HasBuffFlag targetChar Blink then critChance sdiv 2 else critChance);
          critChance = (if critChance < 5 then 5 else critChance)
      in critChance)"

definition Crits :: "Character \<Rightarrow> Character \<Rightarrow> World \<Rightarrow> bool \<times> World" where
  "Crits sourceChar targetChar w =
     (let critChance = critChance sourceChar targetChar;
          (critRoll, w) = Rand 100 w;
          w = LogRoll ''Crits'' critRoll critChance w
      in (critRoll < critChance, w))"

section \<open>Weapon selection\<close>

text \<open>The synthetic empty weapon \<^verbatim>\<open>items.Item{ItemId: 0}\<close>: every other field has its zero
  value and is never read, since each use is guarded by \<^verbatim>\<open>ItemId > 0\<close>.\<close>

definition emptyItem :: Item where
  "emptyItem =
     \<lparr>ItemId = 0, SpecType = OtherType 0, SpecSubtype = OtherSubType 0, DisplayName = [],
      GetDiceRoll = (0, 0, 0, 0, [])\<rparr>"

text \<open>Lines 198 to 215: the candidate list.\<close>

definition candidateWeapons :: "Character \<Rightarrow> Item list" where
  "candidateWeapons sourceChar =
     (let attackWeapons = [];
          attackWeapons = (if ItemId (EquipWeapon sourceChar) > 0
                           then attackWeapons @ [EquipWeapon sourceChar] else attackWeapons);
          attackWeapons = (if ItemId (EquipOffhand sourceChar) > 0
                              \<and> SpecType (EquipOffhand sourceChar) = Weapon
                           then attackWeapons @ [EquipOffhand sourceChar] else attackWeapons);
          attackWeapons = (if length attackWeapons = 0
                           then attackWeapons @ [emptyItem] else attackWeapons)
      in attackWeapons)"

text \<open>Lines 244 to 248: remove a random position while the list is longer than the cap.\<close>

function trimWeapons :: "Item list \<Rightarrow> nat \<Rightarrow> World \<Rightarrow> Item list \<times> World" where
  "trimWeapons attackWeapons maxWeapons w =
     (if length attackWeapons > maxWeapons
      then (let (rnd, w1) = Rand (int (length attackWeapons)) w
            in trimWeapons (take (nat rnd) attackWeapons @ drop (nat rnd + 1) attackWeapons)
                 maxWeapons w1)
      else (attackWeapons, w))"
  by pat_completeness auto
termination
proof (relation "measure (\<lambda>(ws, m, w). length ws)")
  show "wf (measure (\<lambda>(ws, m, w). length ws))" by simp
next
  fix attackWeapons :: "Item list" and maxWeapons :: nat and w :: World and x :: "int \<times> World"
    and rnd :: int and w1 :: World
  assume len: "maxWeapons < length attackWeapons"
    and x: "x = Rand (int (length attackWeapons)) w" and xy: "(rnd, w1) = x"
  from len have pos: "0 < length attackWeapons" by (cases attackWeapons) simp_all
  have "0 \<le> rnd \<and> rnd < int (length attackWeapons)"
    using x xy pos by (auto simp: Rand_def split: list.splits)
  then have "nat rnd < length attackWeapons" by linarith
  then show "((take (nat rnd) attackWeapons @ drop (nat rnd + 1) attackWeapons, maxWeapons, w1),
              (attackWeapons, maxWeapons, w)) \<in> measure (\<lambda>(ws, m, w). length ws)"
    by simp
qed

text \<open>Lines 198 to 250.\<close>

definition selectWeapons :: "Character \<Rightarrow> World \<Rightarrow> Item list \<times> World" where
  "selectWeapons sourceChar w =
     (let attackWeapons = candidateWeapons sourceChar;
          dualWieldLevel = DualWield sourceChar
      in if length attackWeapons > 1
         then (let maxWeapons = 1;
                   maxWeapons = (if dualWieldLevel = 1 then 1 else maxWeapons);
                   (maxWeapons, w) =
                      (if dualWieldLevel = 2
                       then (let (roll, w) = Rand 100 w;
                                 w = LogRoll ''Both Weapons'' roll 50 w
                             in (if roll < 50 then 2 else maxWeapons, w))
                       else (maxWeapons, w));
                   maxWeapons = (if dualWieldLevel \<ge> 3 then 2 else maxWeapons);
                   maxWeapons = (if SpecSubtype (EquipWeapon sourceChar) = Claws
                                    \<and> SpecSubtype (EquipOffhand sourceChar) = Claws
                                 then 2 else maxWeapons)
               in trimWeapons attackWeapons maxWeapons w)
         else (attackWeapons, w))"


text \<open>Lines 263 to 270: the hit modifier handed to \<^verbatim>\<open>Hits\<close>.\<close>

definition penaltyFor :: "Item list \<Rightarrow> int \<Rightarrow> int" where
  "penaltyFor attackWeapons dualWieldLevel =
     (if length attackWeapons > 1
      then (if dualWieldLevel < 4 then 35 else 25)
      else 0)"

section \<open>Damage of one discrete attack\<close>

text \<open>Lines 190 to 193.\<close>

definition attackCount :: "Character \<Rightarrow> Character \<Rightarrow> int" where
  "attackCount sourceChar targetChar =
     (let attackCount = go_Ceil (fdiv (float64 (Speed sourceChar - Speed targetChar)) 25)
      in if attackCount < 1 then 1 else attackCount)"

text \<open>Lines 302 to 311: the hit check, the dice and the crit. Returns the damage before
  defense.\<close>

definition resolveHit ::
  "Character \<Rightarrow> Character \<Rightarrow> int \<Rightarrow> int \<Rightarrow> int \<Rightarrow> int \<Rightarrow> int list \<Rightarrow> AttackResult \<Rightarrow> World
     \<Rightarrow> int \<times> AttackResult \<times> World" where
  "resolveHit sourceChar targetChar penalty dCount dSides dBonus critBuffs attackResult w =
     (let (hit, w) = Hits (Speed sourceChar) (Speed targetChar) penalty w
      in if hit
         then (let attackResult = attackResult\<lparr>Hit := True\<rparr>;
                   (roll, w) = RollDice dCount dSides w;
                   attackTargetDamage = roll + dBonus;
                   (crit, w) = (if Crit attackResult then (True, w)
                                else Crits sourceChar targetChar w)
               in if crit
                  then (attackTargetDamage + (dCount * dSides + dBonus),
                        attackResult\<lparr>Crit := True, BuffTarget := critBuffs\<rparr>, w)
                  else (attackTargetDamage, attackResult, w))
         else (0, attackResult, w))"

text \<open>Lines 313 to 317 and 319 to 323: the reduction and the damage that is left.\<close>

definition mitigate :: "int \<Rightarrow> int \<Rightarrow> int \<times> int" where
  "mitigate defenseAmt damage =
     (if defenseAmt > 0
      then (let reduction = go_Round (fmul (fdiv (float64 defenseAmt) 100) (float64 damage))
            in (reduction, damage - reduction))
      else (0, damage))"

section \<open>Narration of one discrete attack\<close>

text \<open>
  The texts come from collaborators outside combat.go, which the model takes as a record of
  functions. \<open>GetAttackMessage subtype damage maxDamage\<close> is the bundle that
  \<^verbatim>\<open>items.GetAttackMessage(weaponSubType, int(pctDamage))\<close> returns, each of its option lists
  already resolved by \<^verbatim>\<open>Get()\<close>: line 326 turns the damage into a percentage of
  \<open>maxDamage\<close> by a float64 division whose divisor may be zero, and the percentage is used
  for this lookup only, so the model hands the damage and the divisor to the lookup.
  \<open>GetPreAttackMessage\<close> is \<^verbatim>\<open>items.GetPreAttackMessage\<close>, resolved in the same way.
  \<open>SetTokenValue\<close> and \<open>AnsiParse\<close> are the methods of those names. \<open>ExitName a b\<close> is the
  name of an exit of room \<open>a\<close> that leads to room \<open>b\<close>, when \<^verbatim>\<open>rooms.LoadRoom(a)\<close> finds the
  room and the room has one.
\<close>

datatype TokenName =
  TokenItemName | TokenSource | TokenSourceType | TokenTarget | TokenTargetType
| TokenUsesLeft | TokenDamage | TokenEntranceName | TokenExitName

record TogetherMsgs =
  tgToAttacker :: string
  tgToDefender :: string
  tgToRoom :: string

record SeparateMsgs =
  spToAttacker :: string
  spToDefender :: string
  spToAttackerRoom :: string
  spToDefenderRoom :: string

record AttackMessages =
  Together :: TogetherMsgs
  Separate :: SeparateMsgs

text \<open>\<^verbatim>\<open>items.Intensity\<close>, the step of the wait before an attack; combat.go only passes it on.\<close>

datatype Intensity = Intensity nat

record Collab =
  GetAttackMessage :: "ItemSubType \<Rightarrow> int \<Rightarrow> int \<Rightarrow> AttackMessages"
  GetPreAttackMessage :: "ItemSubType \<Rightarrow> Intensity \<Rightarrow> AttackMessages"
  SetTokenValue :: "string \<Rightarrow> TokenName \<Rightarrow> string \<Rightarrow> string"
  AnsiParse :: "string \<Rightarrow> string"
  ExitName :: "int \<Rightarrow> int \<Rightarrow> string option"

definition typeString :: "SourceTarget \<Rightarrow> string" where
  "typeString t = (case t of User \<Rightarrow> ''user'' | Mob \<Rightarrow> ''mob'')"

definition allTokens :: "TokenName list" where
  "allTokens =
     [TokenItemName, TokenSource, TokenSourceType, TokenTarget, TokenTargetType,
      TokenUsesLeft, TokenDamage, TokenEntranceName, TokenExitName]"

text \<open>Lines 332 to 342 and 360 to 389: the token table of one attack.\<close>

definition tokenReplacements ::
  "Collab \<Rightarrow> Character \<Rightarrow> Character \<Rightarrow> SourceTarget \<Rightarrow> SourceTarget \<Rightarrow> string \<Rightarrow> int
     \<Rightarrow> TokenName \<Rightarrow> string" where
  "tokenReplacements env sourceChar targetChar sourceType targetType weaponName attackTargetDamage =
     (let t = (\<lambda>k. case k of
                 TokenItemName \<Rightarrow> weaponName
               | TokenSource \<Rightarrow> Name sourceChar
               | TokenSourceType \<Rightarrow> typeString sourceType @ ''name''
               | TokenTarget \<Rightarrow> Name targetChar
               | TokenTargetType \<Rightarrow> typeString targetType @ ''name''
               | TokenUsesLeft \<Rightarrow> ''[Invalid]''
               | TokenDamage \<Rightarrow> Itoa attackTargetDamage
               | TokenEntranceName \<Rightarrow> ''unknown''
               | TokenExitName \<Rightarrow> ''unknown'');
          t = (if RoomId sourceChar = RoomId targetChar then t
               else (let t = (case ExitName env (RoomId sourceChar) (RoomId targetChar) of
                                Some exitName \<Rightarrow> t(TokenExitName := exitName) | None \<Rightarrow> t)
                     in case ExitName env (RoomId targetChar) (RoomId sourceChar) of
                          Some exitName \<Rightarrow> t(TokenEntranceName := exitName) | None \<Rightarrow> t));
          t = (if ItemId (EquipWeapon sourceChar) > 0
               then t(TokenItemName := DisplayName (EquipWeapon sourceChar)) else t);
          t = (if sourceType = Mob then t(TokenSource := MobName sourceChar) else t);
          t = (if targetType = Mob then t(TokenTarget := MobName targetChar) else t)
      in t)"

text \<open>Lines 391 to 398: every token is set in the three first messages, and in the
  defender-room message while that one is not empty.\<close>

definition fillTokens ::
  "Collab \<Rightarrow> (TokenName \<Rightarrow> string) \<Rightarrow> string \<times> string \<times> string \<times> string
     \<Rightarrow> string \<times> string \<times> string \<times> string" where
  "fillTokens env t msgs =
     foldl (\<lambda>(toAttackerMsg, toDefenderMsg, toAttackerRoomMsg, toDefenderRoomMsg) tokenName.
              (SetTokenValue env toAttackerMsg tokenName (t tokenName),
               SetTokenValue env toDefenderMsg tokenName (t tokenName),
               SetTokenValue env toAttackerRoomMsg tokenName (t tokenName),
               (if length toDefenderRoomMsg > 0
                then SetTokenValue env toDefenderRoomMsg tokenName (t tokenName)
                else toDefenderRoomMsg)))
       msgs allTokens"

definition critMark :: "string \<Rightarrow> string" where
  \<open>critMark m = ''<ansi fg="yellow-bold">***</ansi> '' @ m @ '' <ansi fg="yellow-bold">***</ansi>''\<close>

definition backstabPrefix :: string where
  \<open>backstabPrefix = ''<ansi fg="magenta-bold">*[BACKSTAB]*</ansi> ''\<close>

text \<open>Lines 328 to 416: the four messages of one attack, before rendering.\<close>

definition attackMessages ::
  "Collab \<Rightarrow> Character \<Rightarrow> Character \<Rightarrow> SourceTarget \<Rightarrow> SourceTarget \<Rightarrow> string \<Rightarrow> string
     \<Rightarrow> ItemSubType \<Rightarrow> int \<Rightarrow> int \<Rightarrow> bool \<Rightarrow> string \<times> string \<times> string \<times> string" where
  "attackMessages env sourceChar targetChar sourceType targetType attackMessagePrefix weaponName
       weaponSubType maxDamage attackTargetDamage crit =
     (let msgs = GetAttackMessage env weaponSubType attackTargetDamage maxDamage;
          m = (if RoomId sourceChar = RoomId targetChar
               then (tgToAttacker (Together msgs), tgToDefender (Together msgs),
                     tgToRoom (Together msgs), [])
               else (spToAttacker (Separate msgs), spToDefender (Separate msgs),
                     spToAttackerRoom (Separate msgs), spToDefenderRoom (Separate msgs)));
          m = fillTokens env
                (tokenReplacements env sourceChar targetChar sourceType targetType weaponName
                   attackTargetDamage) m;
          m = (if crit
               then (case m of (toAttackerMsg, toDefenderMsg, toAttackerRoomMsg, toDefenderRoomMsg) \<Rightarrow>
                       (critMark toAttackerMsg, critMark toDefenderMsg, critMark toAttackerRoomMsg,
                        (if length toDefenderRoomMsg > 0 then critMark toDefenderRoomMsg
                         else toDefenderRoomMsg)))
               else m);
          m = (if length attackMessagePrefix > 0
               then (case m of (toAttackerMsg, toDefenderMsg, toAttackerRoomMsg, toDefenderRoomMsg) \<Rightarrow>
                       (attackMessagePrefix @ toAttackerMsg, attackMessagePrefix @ toDefenderMsg,
                        attackMessagePrefix @ toAttackerRoomMsg,
                        (if length toDefenderRoomMsg > 0 then attackMessagePrefix @ toDefenderRoomMsg
                         else toDefenderRoomMsg)))
               else m)
      in m)"

text \<open>Lines 418 to 458: the four sends. Nothing here looks at the buffs of the source.\<close>

definition sendMessages ::
  "Collab \<Rightarrow> Character \<Rightarrow> SourceTarget \<Rightarrow> string \<times> string \<times> string \<times> string
     \<Rightarrow> int \<Rightarrow> int \<Rightarrow> int \<Rightarrow> int \<Rightarrow> AttackResult \<Rightarrow> AttackResult" where
  \<open>sendMessages env targetChar targetType m attackTargetDamage attackTargetReduction
       attackSourceDamage attackSourceReduction attackResult =
     (case m of (toAttackerMsg, toDefenderMsg, toAttackerRoomMsg, toDefenderRoomMsg) \<Rightarrow>
      (let attackerMsg = toAttackerMsg;
           attackerMsg = (if attackSourceDamage > 0 \<and> attackSourceReduction > 0
                          then attackerMsg @ '' <ansi fg="white">['' @ Itoa attackSourceReduction
                                 @ '' was blocked]</ansi>''
                          else attackerMsg);
           attackResult = SendToSource (AnsiParse env attackerMsg) attackResult;
           defenderMsg = toDefenderMsg;
           defenderMsg = (if attackTargetDamage > 0 \<and> attackTargetReduction > 0
                          then defenderMsg @ '' <ansi fg="red">[you blocked '' @ Itoa attackTargetReduction
                                 @ '']</ansi>''
                          else defenderMsg);
           attackResult = SendToTarget (AnsiParse env defenderMsg) attackResult;
           attackResult = SendToSourceRoom
                            (AnsiParse env
                               (SetTokenValue env
                                  (SetTokenValue env toAttackerRoomMsg TokenTarget (Name targetChar))
                                  TokenTargetType (typeString targetType)))
                            attackResult;
           attackResult = (if length toDefenderRoomMsg > 0
                           then SendToTargetRoom
                                  (AnsiParse env
                                     (SetTokenValue env
                                        (SetTokenValue env toDefenderRoomMsg TokenTarget (Name targetChar))
                                        TokenTargetType (typeString targetType)))
                                  attackResult
                           else attackResult)
       in attackResult))\<close>

section \<open>Messages of the wait before an attack\<close>

text \<open>Lines 95 to 152 of \<^verbatim>\<open>GetWaitMessages\<close>: its token table.\<close>

definition waitTokenReplacements ::
  "Collab \<Rightarrow> Character \<Rightarrow> Character \<Rightarrow> SourceTarget \<Rightarrow> SourceTarget \<Rightarrow> TokenName \<Rightarrow> string" where
  "waitTokenReplacements env sourceChar targetChar sourceType targetType =
     (let t = (\<lambda>k. case k of
                 TokenItemName \<Rightarrow> UnarmedName sourceChar
               | TokenSource \<Rightarrow> Name sourceChar
               | TokenSourceType \<Rightarrow> typeString sourceType @ ''name''
               | TokenTarget \<Rightarrow> Name targetChar
               | TokenTargetType \<Rightarrow> typeString targetType @ ''name''
               | TokenUsesLeft \<Rightarrow> ''[Invalid]''
               | TokenDamage \<Rightarrow> ''[Invalid]''
               | TokenEntranceName \<Rightarrow> ''unknown''
               | TokenExitName \<Rightarrow> ''unknown'');
          t = (if RoomId sourceChar = RoomId targetChar then t
               else (let t = (case ExitName env (RoomId sourceChar) (RoomId targetChar) of
                                Some exitName \<Rightarrow> t(TokenExitName := exitName) | None \<Rightarrow> t)
                     in case ExitName env (RoomId targetChar) (RoomId sourceChar) of
                          Some exitName \<Rightarrow> t(TokenEntranceName := exitName) | None \<Rightarrow> t));
          t = (if ItemId (EquipWeapon sourceChar) > 0
               then t(TokenItemName := DisplayName (EquipWeapon sourceChar)) else t);
          t = (if sourceType = Mob then t(TokenSource := MobName sourceChar) else t);
          t = (if targetType = Mob then t(TokenTarget := MobName targetChar) else t)
      in t)"

text \<open>Lines 154 to 161: as in the round, except that line 159 builds the defender-room
  message from the attacker-room message.\<close>

definition fillWaitTokens ::
  "Collab \<Rightarrow> (TokenName \<Rightarrow> string) \<Rightarrow> string \<times> string \<times> string \<times> string
     \<Rightarrow> string \<times> string \<times> string \<times> string" where
  "fillWaitTokens env t msgs =
     foldl (\<lambda>(toAttackerMsg, toDefenderMsg, toAttackerRoomMsg, toDefenderRoomMsg) tokenName.
              (SetTokenValue env toAttackerMsg tokenName (t tokenName),
               SetTokenValue env toDefenderMsg tokenName (t tokenName),
               SetTokenValue env toAttackerRoomMsg tokenName (t tokenName),
               (if length toDefenderRoomMsg > 0
                then SetTokenValue env (SetTokenValue env toAttackerRoomMsg tokenName (t tokenName))
                       tokenName (t tokenName)
                else toDefenderRoomMsg)))
       msgs allTokens"

text \<open>Lines 87 to 184. Lines 167 to 181 send to the target and to the rooms only when the
  source is not hidden.\<close>

definition GetWaitMessages ::
  "Collab \<Rightarrow> Intensity \<Rightarrow> Character \<Rightarrow> Character \<Rightarrow> SourceTarget \<Rightarrow> SourceTarget
     \<Rightarrow> AttackResult" where
  "GetWaitMessages env stepType sourceChar targetChar sourceType targetType =
     (let attackResult = emptyResult;
          msgs = GetPreAttackMessage env (SpecSubtype (EquipWeapon sourceChar)) stepType;
          m = (if RoomId sourceChar = RoomId targetChar
               then (tgToAttacker (Together msgs), tgToDefender (Together msgs),
                     tgToRoom (Together msgs), [])
               else (spToAttacker (Separate msgs), spToDefender (Separate msgs),
                     spToAttackerRoom (Separate msgs), spToDefenderRoom (Separate msgs)))
      in case fillWaitTokens env
                (waitTokenReplacements env sourceChar targetChar sourceType targetType) m of
           (toAttackerMsg, toDefenderMsg, toAttackerRoomMsg, toDefenderRoomMsg) \<Rightarrow>
             (let attackResult = (if toAttackerMsg \<noteq> []
                                  then SendToSource (AnsiParse env toAttackerMsg) attackResult
                                  else attackResult)
              in if \<not> HasBuffFlag sourceChar Hidden
                 then (let attackResult = (if toDefenderMsg \<noteq> []
                                           then SendToTarget (AnsiParse env toDefenderMsg) attackResult
                                           else attackResult);
                           attackResult = (if toAttackerRoomMsg \<noteq> []
                                           then SendToSourceRoom (AnsiParse env toAttackerRoomMsg)
                                                  attackResult
                                           else attackResult);
                           attackResult = (if toDefenderRoomMsg \<noteq> []
                                           then SendToTargetRoom (AnsiParse env toDefenderRoomMsg)
                                                  attackResult
                                           else attackResult)
                       in attackResult)
                 else attackResult))"

section \<open>The round\<close>

text \<open>Lines 296 to 464: the body of the loop over the attacks of one weapon.\<close>

definition discreteAttack ::
  "Collab \<Rightarrow> Character \<Rightarrow> Character \<Rightarrow> SourceTarget \<Rightarrow> SourceTarget \<Rightarrow> string \<Rightarrow> int
     \<Rightarrow> string \<Rightarrow> ItemSubType \<Rightarrow> int \<Rightarrow> int \<Rightarrow> int \<Rightarrow> int list
     \<Rightarrow> AttackResult \<times> World \<Rightarrow> AttackResult \<times> World" where
  "discreteAttack env sourceChar targetChar sourceType targetType attackMessagePrefix penalty
       weaponName weaponSubType dCount dSides dBonus critBuffs st =
     (case st of (attackResult, w) \<Rightarrow>
      (let (attackTargetDamage, attackResult, w) =
             resolveHit sourceChar targetChar penalty dCount dSides dBonus critBuffs attackResult w;
           (defenseAmt, w) = Rand (GetDefense targetChar) w;
           (attackTargetReduction, attackTargetDamage) = mitigate defenseAmt attackTargetDamage;
           (defenseAmt, w) = Rand (GetDefense sourceChar) w;
           (attackSourceReduction, attackSourceDamage) = mitigate defenseAmt 0;
           m = attackMessages env sourceChar targetChar sourceType targetType attackMessagePrefix
                 weaponName weaponSubType (dCount * dSides + dBonus) attackTargetDamage
                 (Crit attackResult);
           attackResult = sendMessages env targetChar targetType m attackTargetDamage
                            attackTargetReduction attackSourceDamage attackSourceReduction
                            attackResult;
           attackResult = attackResult
             \<lparr>DamageToTarget := DamageToTarget attackResult + attackTargetDamage,
              DamageToTargetReduction := DamageToTargetReduction attackResult + attackTargetReduction,
              DamageToSource := DamageToSource attackResult + attackSourceDamage,
              DamageToSourceReduction := DamageToSourceReduction attackResult + attackSourceReduction\<rparr>
       in (attackResult, w)))"

text \<open>Lines 261 to 467: one weapon. The dice are the weapon's, or the racial default for
  empty hands; the weapon then gets \<open>attacks\<close> discrete attacks.\<close>

definition weaponAttacks ::
  "Collab \<Rightarrow> Character \<Rightarrow> Character \<Rightarrow> SourceTarget \<Rightarrow> SourceTarget \<Rightarrow> string \<Rightarrow> int
     \<Rightarrow> AttackResult \<times> World \<Rightarrow> Item \<Rightarrow> AttackResult \<times> World" where
  "weaponAttacks env sourceChar targetChar sourceType targetType attackMessagePrefix penalty st weapon =
     (let (weaponName, weaponSubType, attacks, dCount, dSides, dBonus, critBuffs) =
            (if ItemId weapon > 0
             then (DisplayName weapon, SpecSubtype weapon, GetDiceRoll weapon)
             else (UnarmedName sourceChar, Generic, GetDefaultDiceRoll sourceChar))
      in ((discreteAttack env sourceChar targetChar sourceType targetType attackMessagePrefix penalty
             weaponName weaponSubType dCount dSides dBonus critBuffs) ^^ nat attacks) st)"

text \<open>Lines 196 to 467: one attack cycle. The state is the result so far, the resolver's
  copy of the source character, and the random source.\<close>

definition attackCycle ::
  "Collab \<Rightarrow> Character \<Rightarrow> SourceTarget \<Rightarrow> SourceTarget
     \<Rightarrow> AttackResult \<times> Character \<times> World \<Rightarrow> AttackResult \<times> Character \<times> World" where
  "attackCycle env targetChar sourceType targetType st =
     (case st of (attackResult, sourceChar, w) \<Rightarrow>
      (let dualWieldLevel = DualWield sourceChar;
           (attackWeapons, w) = selectWeapons sourceChar w;
           (attackResult, attackMessagePrefix, sourceChar) =
              (if AggroT (Aggro sourceChar) = BackStab
               then (attackResult\<lparr>Crit := True\<rparr>, backstabPrefix,
                     SetAggro sourceChar (AggroUserId (Aggro sourceChar))
                       (AggroMobInstanceId (Aggro sourceChar)) DefaultAttack)
               else (attackResult, [], sourceChar));
           (attackResult, w) =
              foldl (weaponAttacks env sourceChar targetChar sourceType targetType
                       attackMessagePrefix (penaltyFor attackWeapons dualWieldLevel))
                (attackResult, w) attackWeapons
       in (attackResult, sourceChar, w)))"

text \<open>\<^verbatim>\<open>calculateCombat\<close> receives both characters by value and returns the Attack Result
  only: its copy of the source character is dropped on return.\<close>

definition calculateCombat ::
  "Collab \<Rightarrow> Character \<Rightarrow> Character \<Rightarrow> SourceTarget \<Rightarrow> SourceTarget \<Rightarrow> World
     \<Rightarrow> AttackResult \<times> World" where
  "calculateCombat env sourceChar targetChar sourceType targetType w =
     (case ((attackCycle env targetChar sourceType targetType)
              ^^ nat (attackCount sourceChar targetChar)) (emptyResult, sourceChar, w) of
        (attackResult, sourceChar', w') \<Rightarrow> (attackResult, w'))"

section \<open>Entry point: player against mob\<close>




section \<open>Reading the audit log\<close>

text \<open>The entries that \<^verbatim>\<open>Hits\<close> and \<^verbatim>\<open>Crits\<close> wrote, and whether an entry records a roll
  that stayed at or above its threshold.\<close>

definition hitRolls :: "World \<Rightarrow> (string \<times> int \<times> int) list" where
  "hitRolls w = filter (\<lambda>e. fst e = ''Hits'') (rolls w)"

definition critRolls :: "World \<Rightarrow> (string \<times> int \<times> int) list" where
  "critRolls w = filter (\<lambda>e. fst e = ''Crits'') (rolls w)"

definition missed :: "string \<times> int \<times> int \<Rightarrow> bool" where
  "missed e = (\<not> fst (snd e) < snd (snd e))"



text \<open>As long as every logged hit roll is a miss, the hit flag is off and no damage has been
  dealt; and the target has one message per logged hit roll.\<close>

definition missInv :: "AttackResult \<times> World \<Rightarrow> bool" where
  "missInv st =
     ((list_all missed (hitRolls (snd st)) \<longrightarrow> \<not> Hit (fst st) \<and> DamageToTarget (fst st) = 0)
      \<and> length (MessagesToTarget (fst st)) = length (hitRolls (snd st)))"

section \<open>Concrete inputs\<close>

text \<open>Collaborators with fixed texts, no token substitution, no markup and no exits; two
  unarmed characters in the same room; a duelist five levels above them; two weapons.\<close>

definition env0 :: Collab where
  "env0 =
     \<lparr>GetAttackMessage = (\<lambda>subtype damage maxDamage.
        \<lparr>Together = \<lparr>tgToAttacker = (if damage \<le> 0 then ''You miss.'' else ''You hit.''),
                     tgToDefender = (if damage \<le> 0 then ''You dodge.'' else ''You are hit.''),
                     tgToRoom = ''They fight.''\<rparr>,
         Separate = \<lparr>spToAttacker = ''You shoot.'', spToDefender = ''You are shot at.'',
                     spToAttackerRoom = ''A shot leaves.'', spToDefenderRoom = ''A shot arrives.''\<rparr>\<rparr>),
      GetPreAttackMessage = (\<lambda>subtype stepType.
        \<lparr>Together = \<lparr>tgToAttacker = ''You prepare.'', tgToDefender = ''You are watched.'',
                     tgToRoom = ''They circle.''\<rparr>,
         Separate = \<lparr>spToAttacker = ''You aim.'', spToDefender = ''You are aimed at.'',
                     spToAttackerRoom = ''Someone aims.'', spToDefenderRoom = ''Someone is aimed at.''\<rparr>\<rparr>),
      SetTokenValue = (\<lambda>m k v. m), AnsiParse = (\<lambda>m. m), ExitName = (\<lambda>a b. None)\<rparr>"

definition brawler :: Character where
  "brawler =
     \<lparr>Name = ''Ayla'', Level = 5, RoomId = 1, Strength = 10, Speed = 100,
      EquipWeapon = emptyItem, EquipOffhand = emptyItem,
      Aggro = \<lparr>AggroUserId = 0, AggroMobInstanceId = 7, AggroT = DefaultAttack\<rparr>,
      BuffFlags = [], DualWield = 0, GetDefense = 0, GetDefaultDiceRoll = (1, 1, 4, 0, []),
      UnarmedName = ''fists'', MobName = ''Ayla'', Health = 50\<rparr>"

definition rat0 :: Character where
  "rat0 =
     \<lparr>Name = ''rat'', Level = 5, RoomId = 1, Strength = 10, Speed = 50,
      EquipWeapon = emptyItem, EquipOffhand = emptyItem,
      Aggro = \<lparr>AggroUserId = 1, AggroMobInstanceId = 0, AggroT = DefaultAttack\<rparr>,
      BuffFlags = [], DualWield = 0, GetDefense = 0, GetDefaultDiceRoll = (1, 1, 4, 0, []),
      UnarmedName = ''teeth'', MobName = ''a rat'', Health = 20\<rparr>"

definition duelist :: Character where
  "duelist =
     \<lparr>Name = ''Bram'', Level = 10, RoomId = 1, Strength = 20, Speed = 30,
      EquipWeapon = emptyItem, EquipOffhand = emptyItem,
      Aggro = \<lparr>AggroUserId = 0, AggroMobInstanceId = 7, AggroT = DefaultAttack\<rparr>,
      BuffFlags = [], DualWield = 0, GetDefense = 0, GetDefaultDiceRoll = (1, 1, 4, 0, []),
      UnarmedName = ''fists'', MobName = ''Bram'', Health = 80\<rparr>"

definition dagger :: Item where
  "dagger =
     \<lparr>ItemId = 11, SpecType = Weapon, SpecSubtype = OtherSubType 1, DisplayName = ''dagger'',
      GetDiceRoll = (1, 1, 6, 1, [3])\<rparr>"







definition lurker :: Character where
  "lurker = duelist\<lparr>BuffFlags := [Hidden]\<rparr>"



section \<open>Rounding to float64: monotone, and exact on 53-bit significands\<close>








lemma fl64_0: "fl64 0 = 0"
  by (simp add: fl64_def)










section \<open>Round pacing\<close>



section \<open>Crit chance\<close>

lemma floor_half: "\<lfloor>1 / 2 :: rat\<rfloor> = 0"
  by (simp add: floor_eq_iff)








section \<open>Weapon selection under dual wield\<close>





section \<open>Hit chance\<close>

lemma toHitPct_mono: "m \<le> m' \<Longrightarrow> toHitPct a d m \<le> toHitPct a d m'"
  by (simp add: toHitPct_def Let_def)

lemma penaltyFor_nonneg: "0 \<le> penaltyFor ws lvl"
  by (simp add: penaltyFor_def)

lemma hitChance_25_75: "hitChance 25 75 = 47"
  by code_simp

lemma Hits_roll:
  "fst (Hits a d m w) = (fst (Rand 100 w) < toHitPct a d m)"
  by (simp add: Hits_def Let_def split: prod.splits)

text \<open>
  Claim C1 says that with two active weapons the to-hit percentage is lowered by 35 points
  below tier 4 and by 25 points from tier 4 on. The modifier of lines 263 to 270 has these
  sizes, but it is positive and line 487 adds it: the percentage with two weapons is never
  below the one with a single weapon. At speeds 25 against 75 a single weapon hits at 47,
  two weapons hit at 82 (tier 0) and 72 (tier 4), and a roll of 60 misses with one weapon
  and hits with two.
\<close>

theorem dual_wield_modifier_is_added:
  "toHitPct a d 0 \<le> toHitPct a d (penaltyFor ws lvl)
   \<and> penaltyFor [dagger] 0 = 0 \<and> toHitPct 25 75 (penaltyFor [dagger] 0) = 47
   \<and> penaltyFor [dagger, dagger] 0 = 35 \<and> toHitPct 25 75 (penaltyFor [dagger, dagger] 0) = 82
   \<and> penaltyFor [dagger, dagger] 4 = 25 \<and> toHitPct 25 75 (penaltyFor [dagger, dagger] 4) = 72
   \<and> \<not> fst (Hits 25 75 (penaltyFor [dagger] 0) \<lparr>draws = [60], rolls = []\<rparr>)
   \<and> fst (Hits 25 75 (penaltyFor [dagger, dagger] 0) \<lparr>draws = [60], rolls = []\<rparr>)"
proof -
  have "toHitPct a d 0 \<le> toHitPct a d (penaltyFor ws lvl)"
    using penaltyFor_nonneg by (rule toHitPct_mono)
  moreover have "toHitPct 25 75 0 = 47" "toHitPct 25 75 35 = 82" "toHitPct 25 75 25 = 72"
    by (simp_all add: toHitPct_def hitChance_25_75)
  ultimately show ?thesis
    by (simp add: penaltyFor_def Hits_roll Rand_def)
qed

lemma hitChance_100_50: "hitChance 100 50 = 76"
  by code_simp

lemma ceil_50_25: "go_Ceil (fdiv (float64 50) 25) = 2"
  by code_simp

text \<open>
  Claim C5, as stated, fails on its first point: the brawler (speed 100, unarmed, tier 0,
  no status effects) against the rat (speed 50, same level) gets \<open>ceil(50 / 25) = 2\<close> attack
  cycles, not 1.
\<close>

theorem two_cycles_at_speed_100_vs_50: "Speed brawler = 100 \<and> Speed rat0 = 50
   \<and> ItemId (EquipWeapon brawler) = 0 \<and> ItemId (EquipOffhand brawler) = 0
   \<and> DualWield brawler = 0 \<and> BuffFlags brawler = [] \<and> BuffFlags rat0 = []
   \<and> Level brawler = Level rat0 \<and> attackCount brawler rat0 \<noteq> 1"
  by (simp add: brawler_def rat0_def emptyItem_def attackCount_def ceil_50_25)

text \<open>
  Claim C5, amended. For an unarmed attacker with adjusted speed 100 against a defender with
  adjusted speed 50, the round contains exactly 2 attack cycles; the one active weapon is
  the empty hands, with no hit modifier; the hit chance is \<open>30 + floor(70 * 100 / 150) = 76\<close>
  and the clamp to \<open>[5, 95]\<close> leaves it unchanged; a hit roll of 50 hits and a hit roll of
  80 misses.
\<close>

theorem speed_100_vs_50:
  assumes "Speed sourceChar = 100" and "Speed targetChar = 50"
    and "ItemId (EquipWeapon sourceChar) = 0" and "ItemId (EquipOffhand sourceChar) = 0"
  shows "attackCount sourceChar targetChar = 2
         \<and> fst (selectWeapons sourceChar w) = [emptyItem]
         \<and> penaltyFor (fst (selectWeapons sourceChar w)) (DualWield sourceChar) = 0
         \<and> hitChance (Speed sourceChar) (Speed targetChar) = 76
         \<and> toHitPct (Speed sourceChar) (Speed targetChar) 0 = 76
         \<and> fst (Hits (Speed sourceChar) (Speed targetChar) 0 \<lparr>draws = 50 # ds, rolls = rs\<rparr>)
         \<and> \<not> fst (Hits (Speed sourceChar) (Speed targetChar) 0 \<lparr>draws = 80 # ds, rolls = rs\<rparr>)"
proof -
  have "attackCount sourceChar targetChar = 2"
    using assms by (simp add: attackCount_def ceil_50_25)
  moreover have "fst (selectWeapons sourceChar w) = [emptyItem]"
    using assms by (simp add: selectWeapons_def candidateWeapons_def)
  moreover have "toHitPct 100 50 0 = 76"
    by (simp add: toHitPct_def hitChance_100_50)
  ultimately show ?thesis
    using assms by (simp add: penaltyFor_def hitChance_100_50 Hits_roll Rand_def)
qed

theorem speed_100_vs_50_witness:
  "Speed brawler = 100 \<and> Speed rat0 = 50
   \<and> ItemId (EquipWeapon brawler) = 0 \<and> ItemId (EquipOffhand brawler) = 0
   \<and> attackCount brawler rat0 = 2
   \<and> fst (selectWeapons brawler \<lparr>draws = [], rolls = []\<rparr>) = [emptyItem]
   \<and> toHitPct (Speed brawler) (Speed rat0) 0 = 76
   \<and> fst (Hits (Speed brawler) (Speed rat0) 0 \<lparr>draws = [50], rolls = []\<rparr>)
   \<and> \<not> fst (Hits (Speed brawler) (Speed rat0) 0 \<lparr>draws = [80], rolls = []\<rparr>)"
  using speed_100_vs_50 [of brawler rat0 "\<lparr>draws = [], rolls = []\<rparr>" "[]" "[]"]
  by (simp add: brawler_def rat0_def emptyItem_def)

section \<open>Effects of the parts of a round\<close>

subsection \<open>The random source\<close>

lemma Rand_rolls: "rolls (snd (Rand n w)) = rolls w"
  by (simp add: Rand_def split: list.splits)



lemma RollDiceN_rolls: "rolls (snd (RollDiceN n sides w)) = rolls w"
  by (induction n arbitrary: w) (simp_all add: Let_def Rand_rolls split: prod.splits, metis Rand_rolls snd_conv)

lemma RollDice_rolls: "rolls (snd (RollDice dice sides w)) = rolls w"
  by (simp add: RollDice_def RollDiceN_rolls)


lemma Hits_rolls:
  "rolls (snd (Hits a d m w)) = rolls w @ [(''Hits'', fst (Rand 100 w), toHitPct a d m)]"
  by (simp add: Hits_def Let_def LogRoll_def Rand_rolls split: prod.splits)
    (metis Rand_rolls snd_conv)

lemma Crits_rolls:
  "rolls (snd (Crits s t w)) = rolls w @ [(''Crits'', fst (Rand 100 w), critChance s t)]"
  by (simp add: Crits_def Let_def LogRoll_def split: prod.splits)
    (metis Rand_rolls snd_conv)


subsection \<open>The hit check, the dice and the crit\<close>

lemma resolveHit_miss:
  "\<not> fst (Hits (Speed s) (Speed t) p w) \<Longrightarrow>
     resolveHit s t p dCount dSides dBonus critBuffs ar w = (0, ar, snd (Hits (Speed s) (Speed t) p w))"
  by (auto simp: resolveHit_def split: prod.splits)

lemma resolveHit_crit:
  "fst (Hits (Speed s) (Speed t) p w) \<Longrightarrow> Crit ar \<Longrightarrow>
     resolveHit s t p dCount dSides dBonus critBuffs ar w =
       (fst (RollDice dCount dSides (snd (Hits (Speed s) (Speed t) p w))) + dBonus
          + (dCount * dSides + dBonus),
        ar\<lparr>Hit := True, Crit := True, BuffTarget := critBuffs\<rparr>,
        snd (RollDice dCount dSides (snd (Hits (Speed s) (Speed t) p w))))"
  by (auto simp: resolveHit_def Let_def split: prod.splits)

lemma resolveHit_Hit:
  "Hit (fst (snd (resolveHit s t p dCount dSides dBonus critBuffs ar w)))
     = (Hit ar \<or> fst (Hits (Speed s) (Speed t) p w))"
  by (simp add: resolveHit_def Let_def split: prod.splits)

lemma resolveHit_Crit: "Crit ar \<Longrightarrow> Crit (fst (snd (resolveHit s t p dCount dSides dBonus critBuffs ar w)))"
  by (simp add: resolveHit_def Let_def split: prod.splits)

lemma resolveHit_frame:
  "DamageToTarget (fst (snd (resolveHit s t p dCount dSides dBonus critBuffs ar w))) = DamageToTarget ar"
  "DamageToTargetReduction (fst (snd (resolveHit s t p dCount dSides dBonus critBuffs ar w)))
     = DamageToTargetReduction ar"
  "DamageToSource (fst (snd (resolveHit s t p dCount dSides dBonus critBuffs ar w))) = DamageToSource ar"
  "DamageToSourceReduction (fst (snd (resolveHit s t p dCount dSides dBonus critBuffs ar w)))
     = DamageToSourceReduction ar"
  "MessagesToSource (fst (snd (resolveHit s t p dCount dSides dBonus critBuffs ar w))) = MessagesToSource ar"
  "MessagesToTarget (fst (snd (resolveHit s t p dCount dSides dBonus critBuffs ar w))) = MessagesToTarget ar"
  "MessagesToSourceRoom (fst (snd (resolveHit s t p dCount dSides dBonus critBuffs ar w)))
     = MessagesToSourceRoom ar"
  "MessagesToTargetRoom (fst (snd (resolveHit s t p dCount dSides dBonus critBuffs ar w)))
     = MessagesToTargetRoom ar"
  by (simp_all add: resolveHit_def Let_def split: prod.splits)

lemma hitRolls_Hits:
  "hitRolls (snd (Hits a d m w)) = hitRolls w @ [(''Hits'', fst (Rand 100 w), toHitPct a d m)]"
  by (simp add: hitRolls_def Hits_rolls)

lemma critRolls_Hits: "critRolls (snd (Hits a d m w)) = critRolls w"
  by (simp add: critRolls_def Hits_rolls)

lemma hitRolls_Crits: "hitRolls (snd (Crits s t w)) = hitRolls w"
  by (simp add: hitRolls_def Crits_rolls)

lemma hitRolls_Rand: "hitRolls (snd (Rand n w)) = hitRolls w"
  by (simp add: hitRolls_def Rand_rolls)

lemma critRolls_Rand: "critRolls (snd (Rand n w)) = critRolls w"
  by (simp add: critRolls_def Rand_rolls)

lemma hitRolls_RollDice: "hitRolls (snd (RollDice c n w)) = hitRolls w"
  by (simp add: hitRolls_def RollDice_rolls)

lemma critRolls_RollDice: "critRolls (snd (RollDice c n w)) = critRolls w"
  by (simp add: critRolls_def RollDice_rolls)

lemma resolveHit_hitRolls:
  "hitRolls (snd (snd (resolveHit s t p dCount dSides dBonus critBuffs ar w)))
     = hitRolls w @ [(''Hits'', fst (Rand 100 w), toHitPct (Speed s) (Speed t) p)]"
proof -
  obtain hit wH where h: "Hits (Speed s) (Speed t) p w = (hit, wH)"
    by (cases "Hits (Speed s) (Speed t) p w")
  obtain roll wD where r: "RollDice dCount dSides wH = (roll, wD)"
    by (cases "RollDice dCount dSides wH")
  obtain c wC where c: "Crits s t wD = (c, wC)" by (cases "Crits s t wD")
  have 1: "hitRolls wH = hitRolls w @ [(''Hits'', fst (Rand 100 w), toHitPct (Speed s) (Speed t) p)]"
    using hitRolls_Hits [of "Speed s" "Speed t" p w] h by simp
  have 2: "hitRolls wD = hitRolls wH" using hitRolls_RollDice [of dCount dSides wH] r by simp
  have 3: "hitRolls wC = hitRolls wD" using hitRolls_Crits [of s t wD] c by simp
  show ?thesis
    by (simp add: resolveHit_def Let_def h r c 1 2 3)
qed

lemma resolveHit_critRolls:
  assumes "Crit ar"
  shows "critRolls (snd (snd (resolveHit s t p dCount dSides dBonus critBuffs ar w))) = critRolls w"
proof -
  obtain hit wH where h: "Hits (Speed s) (Speed t) p w = (hit, wH)"
    by (cases "Hits (Speed s) (Speed t) p w")
  obtain roll wD where r: "RollDice dCount dSides wH = (roll, wD)"
    by (cases "RollDice dCount dSides wH")
  have 1: "critRolls wH = critRolls w" using critRolls_Hits [of "Speed s" "Speed t" p w] h by simp
  have 2: "critRolls wD = critRolls wH" using critRolls_RollDice [of dCount dSides wH] r by simp
  show ?thesis
    using assms by (simp add: resolveHit_def Let_def h r 1 2)
qed


subsection \<open>Defense\<close>

lemma mitigate_zero: "mitigate a 0 = (0, 0)"
  by (simp add: mitigate_def fmul_def float64_def fl64_0 go_Round_def floor_half)

lemma mitigate_snd: "snd (mitigate a d) = d - fst (mitigate a d)"
  by (simp add: mitigate_def Let_def)


subsection \<open>One discrete attack\<close>

lemma sendMessages_frame:
  "Hit (sendMessages env t tT m a b c d ar) = Hit ar"
  "Crit (sendMessages env t tT m a b c d ar) = Crit ar"
  "BuffTarget (sendMessages env t tT m a b c d ar) = BuffTarget ar"
  "DamageToTarget (sendMessages env t tT m a b c d ar) = DamageToTarget ar"
  "DamageToTargetReduction (sendMessages env t tT m a b c d ar) = DamageToTargetReduction ar"
  "DamageToSource (sendMessages env t tT m a b c d ar) = DamageToSource ar"
  "DamageToSourceReduction (sendMessages env t tT m a b c d ar) = DamageToSourceReduction ar"
  by (simp_all add: sendMessages_def SendToSource_def SendToTarget_def SendToSourceRoom_def
      SendToTargetRoom_def Let_def split: prod.splits)

lemma sendMessages_target:
  "length (MessagesToTarget (sendMessages env t tT m a b c d ar)) = length (MessagesToTarget ar) + 1"
  by (simp add: sendMessages_def SendToSource_def SendToTarget_def SendToSourceRoom_def
      SendToTargetRoom_def Let_def split: prod.splits)

lemma sendMessages_sourceRoom:
  "length (MessagesToSourceRoom (sendMessages env t tT m a b c d ar))
     = length (MessagesToSourceRoom ar) + 1"
  by (simp add: sendMessages_def SendToSource_def SendToTarget_def SendToSourceRoom_def
      SendToTargetRoom_def Let_def split: prod.splits)

text \<open>The pieces of one discrete attack, named.\<close>

lemma discreteAttack_parts:
  fixes env s t sT tT pre p wn wst dCount dSides dBonus critBuffs ar w
  defines "R \<equiv> resolveHit s t p dCount dSides dBonus critBuffs ar w"
  defines "a \<equiv> fst (Rand (GetDefense t) (snd (snd R)))"
  defines "r \<equiv> discreteAttack env s t sT tT pre p wn wst dCount dSides dBonus critBuffs (ar, w)"
  shows "Hit (fst r) = Hit (fst (snd R))"
    and "Crit (fst r) = Crit (fst (snd R))"
    and "BuffTarget (fst r) = BuffTarget (fst (snd R))"
    and "DamageToTarget (fst r) = DamageToTarget ar + (fst R - fst (mitigate a (fst R)))"
    and "DamageToTargetReduction (fst r) = DamageToTargetReduction ar + fst (mitigate a (fst R))"
    and "DamageToSource (fst r) = DamageToSource ar"
    and "DamageToSourceReduction (fst r) = DamageToSourceReduction ar"
    and "length (MessagesToTarget (fst r)) = length (MessagesToTarget ar) + 1"
    and "length (MessagesToSourceRoom (fst r)) = length (MessagesToSourceRoom ar) + 1"
    and "rolls (snd r) = rolls (snd (snd R))"
proof -
  obtain D ar1 w1 where R': "resolveHit s t p dCount dSides dBonus critBuffs ar w = (D, ar1, w1)"
    by (cases "resolveHit s t p dCount dSides dBonus critBuffs ar w")
  obtain a1 w2 where A: "Rand (GetDefense t) w1 = (a1, w2)" by (cases "Rand (GetDefense t) w1")
  obtain red fin where M: "mitigate a1 D = (red, fin)" by (cases "mitigate a1 D")
  obtain a2 w3 where B: "Rand (GetDefense s) w2 = (a2, w3)" by (cases "Rand (GetDefense s) w2")
  have fin: "fin = D - red" using mitigate_snd [of a1 D] M by simp
  have fr: "DamageToTarget ar1 = DamageToTarget ar"
    "DamageToTargetReduction ar1 = DamageToTargetReduction ar"
    "DamageToSource ar1 = DamageToSource ar"
    "DamageToSourceReduction ar1 = DamageToSourceReduction ar"
    "MessagesToTarget ar1 = MessagesToTarget ar"
    "MessagesToSourceRoom ar1 = MessagesToSourceRoom ar"
    using resolveHit_frame [of s t p dCount dSides dBonus critBuffs ar w] R' by simp_all
  have w: "rolls w3 = rolls w1"
    using Rand_rolls [of "GetDefense t" w1] Rand_rolls [of "GetDefense s" w2] A B by simp
  have r: "r = (sendMessages env t tT
                  (attackMessages env s t sT tT pre wn wst (dCount * dSides + dBonus) fin (Crit ar1))
                  fin red 0 0 ar1
                \<lparr>DamageToTarget := DamageToTarget ar1 + fin,
                 DamageToTargetReduction := DamageToTargetReduction ar1 + red,
                 DamageToSource := DamageToSource ar1 + 0,
                 DamageToSourceReduction := DamageToSourceReduction ar1 + 0\<rparr>, w3)"
    unfolding r_def discreteAttack_def
    by (simp add: R' A M B mitigate_zero sendMessages_frame)
  show "Hit (fst r) = Hit (fst (snd R))"
    and "Crit (fst r) = Crit (fst (snd R))"
    and "BuffTarget (fst r) = BuffTarget (fst (snd R))"
    and "DamageToTarget (fst r) = DamageToTarget ar + (fst R - fst (mitigate a (fst R)))"
    and "DamageToTargetReduction (fst r) = DamageToTargetReduction ar + fst (mitigate a (fst R))"
    and "DamageToSource (fst r) = DamageToSource ar"
    and "DamageToSourceReduction (fst r) = DamageToSourceReduction ar"
    and "length (MessagesToTarget (fst r)) = length (MessagesToTarget ar) + 1"
    and "length (MessagesToSourceRoom (fst r)) = length (MessagesToSourceRoom ar) + 1"
    and "rolls (snd r) = rolls (snd (snd R))"
    unfolding r R_def a_def
    by (simp_all add: R' A M fin fr w sendMessages_frame sendMessages_target sendMessages_sourceRoom)
qed

subsection \<open>Loops\<close>

lemma funpow_invariant:
  assumes "\<And>x. P x \<Longrightarrow> P (f x)" and "P x"
  shows "P ((f ^^ n) x)"
  using assms by (induction n) simp_all

lemma foldl_invariant:
  assumes "\<And>st x. x \<in> set xs \<Longrightarrow> P st \<Longrightarrow> P (f st x)" and "P st"
  shows "P (foldl f st xs)"
  using assms by (induction xs arbitrary: st) simp_all

lemma weaponAttacks_invariant:
  assumes step: "\<And>wn wst attacks dCount dSides dBonus critBuffs st.
                   ok (attacks, dCount, dSides, dBonus, critBuffs) \<Longrightarrow> P st \<Longrightarrow>
                   P (discreteAttack env src t sT tT pre p wn wst dCount dSides dBonus critBuffs st)"
    and w: "ItemId weapon > 0 \<Longrightarrow> ok (GetDiceRoll weapon)"
    and d: "ok (GetDefaultDiceRoll src)"
    and P: "P st"
  shows "P (weaponAttacks env src t sT tT pre p st weapon)"
proof (cases "ItemId weapon > 0")
  case True
  obtain attacks dCount dSides dBonus critBuffs
    where g: "GetDiceRoll weapon = (attacks, dCount, dSides, dBonus, critBuffs)"
    by (cases "GetDiceRoll weapon")
  have ok: "ok (attacks, dCount, dSides, dBonus, critBuffs)" using w True g by simp
  have "P ((discreteAttack env src t sT tT pre p (DisplayName weapon) (SpecSubtype weapon)
                   dCount dSides dBonus critBuffs ^^ nat attacks) st)"
  proof (rule funpow_invariant [where P = P])
    fix x assume "P x"
    with ok show "P (discreteAttack env src t sT tT pre p (DisplayName weapon) (SpecSubtype weapon)
                      dCount dSides dBonus critBuffs x)" by (rule step)
  next
    show "P st" by (rule P)
  qed
  then show ?thesis using True g by (simp add: weaponAttacks_def)
next
  case False
  obtain attacks dCount dSides dBonus critBuffs
    where g: "GetDefaultDiceRoll src = (attacks, dCount, dSides, dBonus, critBuffs)"
    by (cases "GetDefaultDiceRoll src")
  have ok: "ok (attacks, dCount, dSides, dBonus, critBuffs)" using d g by simp
  have "P ((discreteAttack env src t sT tT pre p (UnarmedName src) Generic
                   dCount dSides dBonus critBuffs ^^ nat attacks) st)"
  proof (rule funpow_invariant [where P = P])
    fix x assume "P x"
    with ok show "P (discreteAttack env src t sT tT pre p (UnarmedName src) Generic
                      dCount dSides dBonus critBuffs x)" by (rule step)
  next
    show "P st" by (rule P)
  qed
  then show ?thesis using False g by (simp add: weaponAttacks_def)
qed

lemma weapons_invariant:
  assumes step: "\<And>wn wst attacks dCount dSides dBonus critBuffs st.
                   ok (attacks, dCount, dSides, dBonus, critBuffs) \<Longrightarrow> P st \<Longrightarrow>
                   P (discreteAttack env src t sT tT pre p wn wst dCount dSides dBonus critBuffs st)"
    and w: "\<And>weapon. weapon \<in> set ws \<Longrightarrow> ItemId weapon > 0 \<Longrightarrow> ok (GetDiceRoll weapon)"
    and d: "ok (GetDefaultDiceRoll src)"
    and P: "P st"
  shows "P (foldl (weaponAttacks env src t sT tT pre p) st ws)"
proof (rule foldl_invariant [where P = P])
  fix st' weapon
  assume mem: "weapon \<in> set ws" and P': "P st'"
  show "P (weaponAttacks env src t sT tT pre p st' weapon)"
  proof (rule weaponAttacks_invariant [where ok = ok and P = P])
    show "ItemId weapon > 0 \<Longrightarrow> ok (GetDiceRoll weapon)" using mem by (rule w)
    show "ok (GetDefaultDiceRoll src)" by (rule d)
    show "P st'" by (rule P')
  qed (rule step)
next
  show "P st" by (rule P)
qed

subsection \<open>Weapon selection leaves the equipped items and the hit and crit entries alone\<close>


lemma trimWeapons_rolls: "rolls (snd (trimWeapons ws m w)) = rolls w"
proof (induction ws m w rule: trimWeapons.induct)
  case (1 ws m w)
  show ?case
  proof (cases "m < length ws")
    case True
    obtain rnd w1 where r: "Rand (int (length ws)) w = (rnd, w1)"
      by (cases "Rand (int (length ws)) w")
    have "rolls w1 = rolls w" using Rand_rolls [of "int (length ws)" w] r by simp
    then show ?thesis using "1.IH" [OF True refl r [symmetric]] True r by simp
  next
    case False
    then show ?thesis by simp
  qed
qed



lemma selectWeapons_rolls:
  "hitRolls (snd (selectWeapons s w)) = hitRolls w"
  "critRolls (snd (selectWeapons s w)) = critRolls w"
proof -
  obtain roll w1 where r: "Rand 100 w = (roll, w1)" by (cases "Rand 100 w")
  have w1: "rolls w1 = rolls w" using Rand_rolls [of 100 w] r by simp
  show "hitRolls (snd (selectWeapons s w)) = hitRolls w"
    and "critRolls (snd (selectWeapons s w)) = critRolls w"
    by (simp_all add: selectWeapons_def Let_def hitRolls_def critRolls_def trimWeapons_rolls
        LogRoll_def r w1 del: trimWeapons.simps)
qed

section \<open>Defense reduction and damage\<close>










section \<open>Misses\<close>

lemma missed_Hits:
  "missed (''Hits'', fst (Rand 100 w), toHitPct a d m) = (\<not> fst (Hits a d m w))"
  by (simp add: missed_def Hits_roll)

lemma discreteAttack_hitRolls:
  "hitRolls (snd (discreteAttack env s t sT tT pre p wn wst dCount dSides dBonus critBuffs (ar, w)))
     = hitRolls w @ [(''Hits'', fst (Rand 100 w), toHitPct (Speed s) (Speed t) p)]"
proof -
  have "hitRolls (snd (discreteAttack env s t sT tT pre p wn wst dCount dSides dBonus critBuffs (ar, w)))
          = hitRolls (snd (snd (resolveHit s t p dCount dSides dBonus critBuffs ar w)))"
    unfolding hitRolls_def
    by (simp only: discreteAttack_parts(10) [of env s t sT tT pre p wn wst dCount dSides dBonus critBuffs ar w])
  then show ?thesis by (simp only: resolveHit_hitRolls)
qed

lemma discreteAttack_miss:
  assumes "\<not> fst (Hits (Speed s) (Speed t) p w)"
  shows "DamageToTarget (fst (discreteAttack env s t sT tT pre p wn wst dCount dSides dBonus critBuffs (ar, w)))
           = DamageToTarget ar
         \<and> Hit (fst (discreteAttack env s t sT tT pre p wn wst dCount dSides dBonus critBuffs (ar, w)))
           = Hit ar"
  using assms
  by (simp add: discreteAttack_parts resolveHit_miss mitigate_zero)

lemma discreteAttack_missInv:
  assumes "missInv st"
  shows "missInv (discreteAttack env s t sT tT pre p wn wst dCount dSides dBonus critBuffs st)"
proof -
  obtain ar w where st: "st = (ar, w)" by (cases st)
  let ?r = "discreteAttack env s t sT tT pre p wn wst dCount dSides dBonus critBuffs (ar, w)"
  have h: "hitRolls (snd ?r) = hitRolls w @ [(''Hits'', fst (Rand 100 w), toHitPct (Speed s) (Speed t) p)]"
    by (rule discreteAttack_hitRolls)
  have len: "length (MessagesToTarget (fst ?r)) = length (MessagesToTarget ar) + 1"
    by (rule discreteAttack_parts)
  have "\<not> Hit (fst ?r) \<and> DamageToTarget (fst ?r) = 0" if "list_all missed (hitRolls (snd ?r))"
  proof -
    from that have a: "list_all missed (hitRolls w)" and m: "\<not> fst (Hits (Speed s) (Speed t) p w)"
      by (simp_all add: h missed_Hits)
    from a assms have "\<not> Hit ar" "DamageToTarget ar = 0" by (simp_all add: missInv_def st)
    then show ?thesis using discreteAttack_miss [OF m, of env sT tT pre wn wst dCount dSides dBonus critBuffs ar]
      by simp
  qed
  then show ?thesis
    using assms len unfolding st missInv_def by (simp add: h)
qed

lemma attackCycle_missInv:
  assumes "missInv (ar, w)"
  shows "case attackCycle env t sT tT (ar, src, w) of (ar', src', w') \<Rightarrow> missInv (ar', w')"
proof -
  obtain ws w1 where sel: "selectWeapons src w = (ws, w1)" by (cases "selectWeapons src w")
  have w1: "hitRolls w1 = hitRolls w" using selectWeapons_rolls(1) [of src w] sel by simp
  have loop: "missInv (foldl (weaponAttacks env src' t sT tT pre p) (ar1, w1) ws)"
    if "missInv (ar1, w1)" for src' pre p ar1
  proof (rule weapons_invariant [where ok = "\<lambda>d. True" and P = missInv])
    fix wn wst and attacks :: int and dCount dSides dBonus critBuffs and st :: "AttackResult \<times> World"
    assume "missInv st"
    then show "missInv (discreteAttack env src' t sT tT pre p wn wst dCount dSides dBonus critBuffs st)"
      by (rule discreteAttack_missInv)
  qed (simp_all add: that)
  show ?thesis
  proof (cases "AggroT (Aggro src) = BackStab")
    case True
    have "missInv (ar\<lparr>Crit := True\<rparr>, w1)" using assms by (simp add: missInv_def w1)
    then have "missInv (foldl (weaponAttacks env
        (SetAggro src (AggroUserId (Aggro src)) (AggroMobInstanceId (Aggro src)) DefaultAttack)
        t sT tT backstabPrefix (penaltyFor ws (DualWield src))) (ar\<lparr>Crit := True\<rparr>, w1) ws)"
      by (rule loop)
    then show ?thesis
      using True by (auto simp: attackCycle_def sel split: prod.splits)
  next
    case False
    have "missInv (ar, w1)" using assms by (simp add: missInv_def w1)
    then have "missInv (foldl (weaponAttacks env src t sT tT [] (penaltyFor ws (DualWield src)))
            (ar, w1) ws)"
      by (rule loop)
    then show ?thesis
      using False by (auto simp: attackCycle_def sel split: prod.splits)
  qed
qed

lemma calculateCombat_missInv:
  assumes "rolls w = []"
  shows "missInv (calculateCombat env s t sT tT w)"
proof -
  define Inv where "Inv = (\<lambda>st :: AttackResult \<times> Character \<times> World.
     case st of (ar', src', w') \<Rightarrow> missInv (ar', w'))"
  have "Inv ((attackCycle env t sT tT ^^ nat (attackCount s t)) (emptyResult, s, w))"
  proof (rule funpow_invariant [where P = Inv])
    fix x assume "Inv x"
    then show "Inv (attackCycle env t sT tT x)"
      unfolding Inv_def using attackCycle_missInv [of _ _ env t sT tT]
      by (cases x) simp
  next
    show "Inv (emptyResult, s, w)"
      using assms by (simp add: Inv_def missInv_def emptyResult_def hitRolls_def)
  qed
  then show ?thesis
    by (simp add: calculateCombat_def Inv_def split: prod.splits)
qed

text \<open>
  Claim C9, as stated, fails on its last point. Lines 430 to 440 send the target a message
  for every discrete attack, hit or miss: when the brawler misses the rat in both cycles
  of a round, the to-target channel holds the two miss narrations.
\<close>

theorem all_misses_still_narrated:
  "list_all missed (hitRolls (snd (calculateCombat env0 brawler rat0 User Mob
                                     \<lparr>draws = [99, 99], rolls = []\<rparr>)))
   \<and> MessagesToTarget (fst (calculateCombat env0 brawler rat0 User Mob
                              \<lparr>draws = [99, 99], rolls = []\<rparr>)) = [''You dodge.'', ''You dodge.'']"
  by code_simp

text \<open>
  Claim C9, amended. A discrete attack whose hit check fails contributes 0 to
  \<open>DamageToTarget\<close>; a round, started with an empty audit log, in which every discrete
  attack misses returns an Attack Result with zero damage to the target and the hit flag
  false; and the to-target channel of every round holds exactly one message per discrete
  attack, missed attacks included.
\<close>

theorem misses_deal_no_damage:
  assumes "rolls w = []"
  shows "(\<not> fst (Hits (Speed sourceChar) (Speed targetChar) penalty w') \<longrightarrow>
            DamageToTarget (fst (discreteAttack env sourceChar targetChar sourceType targetType
               attackMessagePrefix penalty weaponName weaponSubType dCount dSides dBonus critBuffs
               (attackResult, w'))) = DamageToTarget attackResult)
         \<and> (list_all missed (hitRolls (snd (calculateCombat env sourceChar targetChar sourceType targetType w)))
              \<longrightarrow> DamageToTarget (fst (calculateCombat env sourceChar targetChar sourceType targetType w)) = 0
                  \<and> \<not> Hit (fst (calculateCombat env sourceChar targetChar sourceType targetType w)))
         \<and> length (MessagesToTarget (fst (calculateCombat env sourceChar targetChar sourceType targetType w)))
             = length (hitRolls (snd (calculateCombat env sourceChar targetChar sourceType targetType w)))"
  using calculateCombat_missInv [OF assms, of env sourceChar targetChar sourceType targetType]
    discreteAttack_miss [of sourceChar targetChar penalty w' env sourceType targetType
      attackMessagePrefix weaponName weaponSubType dCount dSides dBonus critBuffs attackResult]
  by (simp add: missInv_def)

text \<open>The brawler against the rat, both hit rolls 99 against a threshold of 76.\<close>

theorem misses_deal_no_damage_witness:
  "rolls \<lparr>draws = [99, 99], rolls = []\<rparr> = []
   \<and> \<not> fst (Hits (Speed brawler) (Speed rat0) 0 \<lparr>draws = [99, 99], rolls = []\<rparr>)
   \<and> hitRolls (snd (calculateCombat env0 brawler rat0 User Mob \<lparr>draws = [99, 99], rolls = []\<rparr>))
       = [(''Hits'', 99, 76), (''Hits'', 99, 76)]
   \<and> list_all missed (hitRolls (snd (calculateCombat env0 brawler rat0 User Mob
                                        \<lparr>draws = [99, 99], rolls = []\<rparr>)))
   \<and> DamageToTarget (fst (calculateCombat env0 brawler rat0 User Mob \<lparr>draws = [99, 99], rolls = []\<rparr>)) = 0
   \<and> \<not> Hit (fst (calculateCombat env0 brawler rat0 User Mob \<lparr>draws = [99, 99], rolls = []\<rparr>))
   \<and> length (MessagesToTarget (fst (calculateCombat env0 brawler rat0 User Mob
                                       \<lparr>draws = [99, 99], rolls = []\<rparr>))) = 2"
proof -
  have h: "hitRolls (snd (calculateCombat env0 brawler rat0 User Mob \<lparr>draws = [99, 99], rolls = []\<rparr>))
             = [(''Hits'', 99, 76), (''Hits'', 99, 76)]"
    by code_simp
  have m: "\<not> fst (Hits (Speed brawler) (Speed rat0) 0 \<lparr>draws = [99, 99], rolls = []\<rparr>)"
    by code_simp
  show ?thesis
    using misses_deal_no_damage [of "\<lparr>draws = [99, 99], rolls = []\<rparr>" brawler rat0 0
        "\<lparr>draws = [99, 99], rolls = []\<rparr>" env0 User Mob]
    by (simp add: h m missed_def)
qed

section \<open>The crit flag\<close>

lemma discreteAttack_Crit:
  assumes "Crit (fst st)"
  shows "Crit (fst (discreteAttack env s t sT tT pre p wn wst dCount dSides dBonus critBuffs st))"
proof -
  obtain ar w where st: "st = (ar, w)" by (cases st)
  show ?thesis
    using assms unfolding st
    by (simp add: discreteAttack_parts resolveHit_Crit)
qed

lemma discreteAttack_critRolls:
  assumes "Crit ar"
  shows "critRolls (snd (discreteAttack env s t sT tT pre p wn wst dCount dSides dBonus critBuffs (ar, w)))
           = critRolls w"
proof -
  have "critRolls (snd (discreteAttack env s t sT tT pre p wn wst dCount dSides dBonus critBuffs (ar, w)))
          = critRolls (snd (snd (resolveHit s t p dCount dSides dBonus critBuffs ar w)))"
    unfolding critRolls_def
    by (simp only: discreteAttack_parts(10) [of env s t sT tT pre p wn wst dCount dSides dBonus critBuffs ar w])
  then show ?thesis using assms by (simp only: resolveHit_critRolls)
qed

lemma discreteAttack_critInv:
  assumes "Crit (fst st) \<and> critRolls (snd st) = c"
  shows "Crit (fst (discreteAttack env s t sT tT pre p wn wst dCount dSides dBonus critBuffs st))
         \<and> critRolls (snd (discreteAttack env s t sT tT pre p wn wst dCount dSides dBonus critBuffs st)) = c"
proof -
  obtain ar w where st: "st = (ar, w)" by (cases st)
  show ?thesis
    using assms discreteAttack_Crit [of st env s t sT tT pre p wn wst dCount dSides dBonus critBuffs]
      discreteAttack_critRolls [of ar env s t sT tT pre p wn wst dCount dSides dBonus critBuffs w]
    by (simp add: st)
qed

lemma attackCycle_critInv:
  assumes "critRolls w = c" and "Crit ar \<or> AggroT (Aggro src) = BackStab"
  shows "case attackCycle env t sT tT (ar, src, w) of (ar', src', w') \<Rightarrow> Crit ar' \<and> critRolls w' = c"
proof -
  obtain ws w1 where sel: "selectWeapons src w = (ws, w1)" by (cases "selectWeapons src w")
  have w1: "critRolls w1 = c" using selectWeapons_rolls(2) [of src w] sel assms(1) by simp
  have loop: "Crit (fst (foldl (weaponAttacks env src' t sT tT pre p) (ar1, w1) ws))
              \<and> critRolls (snd (foldl (weaponAttacks env src' t sT tT pre p) (ar1, w1) ws)) = c"
    if "Crit ar1" for src' pre p ar1
  proof (rule weapons_invariant [where ok = "\<lambda>d. True"
        and P = "\<lambda>st. Crit (fst st) \<and> critRolls (snd st) = c"])
    fix wn wst and attacks :: int and dCount dSides dBonus critBuffs and st :: "AttackResult \<times> World"
    assume "Crit (fst st) \<and> critRolls (snd st) = c"
    then show "Crit (fst (discreteAttack env src' t sT tT pre p wn wst dCount dSides dBonus critBuffs st))
         \<and> critRolls (snd (discreteAttack env src' t sT tT pre p wn wst dCount dSides dBonus critBuffs st)) = c"
      by (rule discreteAttack_critInv)
  qed (simp_all add: that w1)
  show ?thesis
  proof (cases "AggroT (Aggro src) = BackStab")
    case True
    have "Crit (ar\<lparr>Crit := True\<rparr>)" by simp
    note loop [OF this, of "SetAggro src (AggroUserId (Aggro src)) (AggroMobInstanceId (Aggro src))
        DefaultAttack" backstabPrefix "penaltyFor ws (DualWield src)"]
    then show ?thesis
      using True by (auto simp: attackCycle_def sel split: prod.splits)
  next
    case False
    then have "Crit ar" using assms(2) by simp
    note loop [OF this, of src "[]" "penaltyFor ws (DualWield src)"]
    then show ?thesis
      using False by (auto simp: attackCycle_def sel split: prod.splits)
  qed
qed



text \<open>
  Claim C10. Once the crit flag of the Attack Result is set, every later discrete attack of
  the same resolver call that passes its hit check deals the dice roll plus the flat bonus
  plus the full crit bonus \<open>dieCount * dieSides + flatBonus\<close> before defense, overwrites
  the on-crit buff set with the weapon's, and writes no crit roll to the audit log (the
  \<^verbatim>\<open>||\<close> of line 306 never calls \<^verbatim>\<open>Crits\<close>); the flag is still set after the attack, and
  after any attack cycle that starts with it set.
\<close>

theorem crit_flag_is_sticky:
  assumes "Crit attackResult"
    and "fst (Hits (Speed sourceChar) (Speed targetChar) penalty w)"
  shows "(let r = discreteAttack env sourceChar targetChar sourceType targetType attackMessagePrefix
                    penalty weaponName weaponSubType dCount dSides dBonus critBuffs (attackResult, w);
              roll = fst (RollDice dCount dSides (snd (Hits (Speed sourceChar) (Speed targetChar) penalty w)))
          in Crit (fst r) \<and> BuffTarget (fst r) = critBuffs
             \<and> fst (resolveHit sourceChar targetChar penalty dCount dSides dBonus critBuffs attackResult w)
                 = roll + dBonus + (dCount * dSides + dBonus)
             \<and> (DamageToTarget (fst r) + DamageToTargetReduction (fst r))
                 - (DamageToTarget attackResult + DamageToTargetReduction attackResult)
                 = roll + dBonus + (dCount * dSides + dBonus)
             \<and> critRolls (snd r) = critRolls w)
         \<and> Crit (fst (attackCycle env targetChar sourceType targetType (attackResult, sourceChar, w')))"
proof -
  note rh = resolveHit_crit [OF assms(2,1), of dCount dSides dBonus critBuffs]
  note parts = discreteAttack_parts [of env sourceChar targetChar sourceType targetType
      attackMessagePrefix penalty weaponName weaponSubType dCount dSides dBonus critBuffs attackResult w]
  have "Crit (fst (attackCycle env targetChar sourceType targetType (attackResult, sourceChar, w')))"
    using attackCycle_critInv [of w' "critRolls w'" attackResult sourceChar env targetChar
        sourceType targetType] assms(1)
    by (simp split: prod.splits)
  moreover have "critRolls (snd (discreteAttack env sourceChar targetChar sourceType targetType
      attackMessagePrefix penalty weaponName weaponSubType dCount dSides dBonus critBuffs (attackResult, w)))
      = critRolls w"
    using assms(1) by (rule discreteAttack_critRolls)
  ultimately show ?thesis
    by (simp add: Let_def parts rh)
qed

text \<open>The duelist, crit flag already set, hits the rat with a roll of 10; the die shows 3.\<close>

theorem crit_flag_is_sticky_witness:
  "Crit (emptyResult\<lparr>Crit := True\<rparr>)
   \<and> fst (Hits (Speed duelist) (Speed rat0) 0 \<lparr>draws = [10, 2], rolls = []\<rparr>)
   \<and> fst (resolveHit duelist rat0 0 1 4 0 [9] (emptyResult\<lparr>Crit := True\<rparr>) \<lparr>draws = [10, 2], rolls = []\<rparr>)
       = 3 + 0 + (1 * 4 + 0)
   \<and> BuffTarget (fst (discreteAttack env0 duelist rat0 User Mob [] 0 ''fists'' Generic 1 4 0 [9]
                         (emptyResult\<lparr>Crit := True\<rparr>, \<lparr>draws = [10, 2], rolls = []\<rparr>))) = [9]
   \<and> critRolls (snd (discreteAttack env0 duelist rat0 User Mob [] 0 ''fists'' Generic 1 4 0 [9]
                         (emptyResult\<lparr>Crit := True\<rparr>, \<lparr>draws = [10, 2], rolls = []\<rparr>))) = []"
proof -
  have h: "fst (Hits (Speed duelist) (Speed rat0) 0 \<lparr>draws = [10, 2], rolls = []\<rparr>)"
    by code_simp
  have r: "fst (RollDice 1 4 (snd (Hits (Speed duelist) (Speed rat0) 0 \<lparr>draws = [10, 2], rolls = []\<rparr>))) = 3"
    by code_simp
  show ?thesis
    using crit_flag_is_sticky [where attackResult = "emptyResult\<lparr>Crit := True\<rparr>" and sourceChar = duelist
        and targetChar = rat0 and penalty = 0 and w = "\<lparr>draws = [10, 2], rolls = []\<rparr>" and env = env0
        and sourceType = User and targetType = Mob and attackMessagePrefix = "[]"
        and weaponName = "''fists''" and weaponSubType = Generic and dCount = 1 and dSides = 4
        and dBonus = 0 and critBuffs = "[9]"]
    by (simp add: h r Let_def critRolls_def)
qed

section \<open>The opening strike\<close>




section \<open>A hidden source\<close>

lemma GetWaitMessages_hidden:
  assumes "HasBuffFlag sourceChar Hidden"
  shows "MessagesToTarget (GetWaitMessages env stepType sourceChar targetChar sourceType targetType) = []
         \<and> MessagesToSourceRoom (GetWaitMessages env stepType sourceChar targetChar sourceType targetType) = []
         \<and> MessagesToTargetRoom (GetWaitMessages env stepType sourceChar targetChar sourceType targetType) = []"
  using assms
  by (simp add: GetWaitMessages_def Let_def SendToSource_def emptyResult_def split: prod.splits)

text \<open>
  Claim C3 says that an attack by a hidden source sends a message to the source only.
  \<^verbatim>\<open>GetWaitMessages\<close> does so (lines 167 to 181, lemma \<open>GetWaitMessages_hidden\<close>), but the
  sends of the round (lines 418 to 458) do not look at the buffs: the hidden duelist's hit
  on the rat is narrated to the target and to the source's room.
\<close>

theorem hidden_source_is_narrated:
  "HasBuffFlag lurker Hidden
   \<and> MessagesToTarget (fst (calculateCombat env0 lurker rat0 User Mob \<lparr>draws = [10, 2, 50], rolls = []\<rparr>))
       = [''You are hit.'']
   \<and> MessagesToSourceRoom (fst (calculateCombat env0 lurker rat0 User Mob \<lparr>draws = [10, 2, 50], rolls = []\<rparr>))
       = [''They fight.'']
   \<and> MessagesToTarget (GetWaitMessages env0 (Intensity 0) lurker rat0 User Mob) = []
   \<and> MessagesToSourceRoom (GetWaitMessages env0 (Intensity 0) lurker rat0 User Mob) = []"
  by code_simp

end
